theory Spec2Isabelle
  imports Main "HOL-Library.Word"
begin

section \<open>JavaScript strings\<close>

text \<open>
  A JavaScript string is a sequence of 16-bit code units. \<open>lit\<close> is a string literal of
  the source, whose characters are all ASCII.
\<close>

type_synonym js_string = "16 word list"

definition lit :: "string \<Rightarrow> js_string" where
  "lit s = map of_char s"

text \<open>
  \<open>String.prototype.trim\<close> and \<open>String.prototype.toUpperCase\<close> are functions of the
  platform, not of \<open>src/lib/mcp.js\<close>: which code units are white space and how each
  code point is mapped to upper case is laid down by the Unicode tables of the engine.
  The handlers receive the two functions as a parameter, and every statement about a
  handler holds for whatever the two functions compute.
\<close>

record js_runtime =
  trim :: "js_string \<Rightarrow> js_string"
  toUpperCase :: "js_string \<Rightarrow> js_string"

text \<open>
  \<open>s.startsWith(p)\<close>: the first code units of \<open>s\<close> are those of \<open>p\<close>.
\<close>

definition js_startsWith :: "js_string \<Rightarrow> js_string \<Rightarrow> bool" where
  "js_startsWith s p = (take (length p) s = p)"

section \<open>The driver, its results and the observable state\<close>

text \<open>
  An error thrown by the driver (or by a handler) carries a message and an optional code.
\<close>

datatype js_error = JsError (err_message: js_string) (err_code: "js_string option")

text \<open>
  The value that \<open>JSON.stringify\<close> receives. An object is an association list, in the
  order in which the source writes the properties.
\<close>

datatype json =
    JNull
  | JBool bool
  | JNum int
  | JStr js_string
  | JArr "json list"
  | JObj "(string \<times> json) list"

text \<open>
  A column descriptor of the driver, of which the handlers read \<open>name\<close>, \<open>type\<close> and
  \<open>length\<close>.
\<close>

datatype field_packet = Field (field_name: js_string) (field_type: int) (field_length: int)

text \<open>
  The first component of what \<open>pool.execute\<close> resolves to: an array of rows, or the
  header of a write, whose numeric properties may be undefined (\<open>None\<close>).
\<close>

datatype header =
  Header (h_affectedRows: "int option") (h_insertId: "int option")
         (h_changedRows: "int option") (h_warningCount: "int option")

datatype exec_result = RowsResult "json list" | HeaderResult header

type_synonym exec_value = "exec_result \<times> field_packet list option"

text \<open>
  The database behind the pool is any state \<open>'d\<close> with a function that executes one
  statement with its positional parameters: it fails with an error (\<open>Inl\<close>) or resolves
  to a result and the column descriptors (\<open>Inr\<close>), and moves the database on.
  \<open>pool.end()\<close> throws an error or not, and moves the database on as well.
\<close>

type_synonym 'd driver =
  "'d \<Rightarrow> js_string \<Rightarrow> js_string list \<Rightarrow> (js_error + exec_value) \<times> 'd"

type_synonym 'd pool_end = "'d \<Rightarrow> js_error option \<times> 'd"

text \<open>
  The lines that the source writes with \<open>console.error\<close>: a failed attempt with its
  number and the message of the error, the pool closed, an error while closing it with
  the message of the error.
\<close>

datatype log_line =
    AttemptFailed nat js_string
  | PoolClosed
  | PoolCloseError js_string

text \<open>
  What a caller can observe besides the returned value, in the order in which it
  happens: a call of \<open>pool.execute\<close> with its SQL text and parameters, a line written
  by \<open>console.error\<close>, a wait of so many milliseconds in \<open>setTimeout\<close>, a call of
  \<open>pool.end\<close>.
\<close>

datatype event =
    Execute js_string "js_string list"
  | ConsoleError log_line
  | Wait nat
  | PoolEnd

record 'd world =
  db :: 'd
  trace :: "event list"

definition pool_execute ::
  "'d driver \<Rightarrow> js_string \<Rightarrow> js_string list \<Rightarrow> 'd world
     \<Rightarrow> (js_error + exec_value) \<times> 'd world" where
  "pool_execute drv sql params w =
     (case drv (db w) sql params of
        (r, d) \<Rightarrow> (r, w\<lparr>db := d, trace := trace w @ [Execute sql params]\<rparr>))"

definition console_error :: "log_line \<Rightarrow> 'd world \<Rightarrow> 'd world" where
  "console_error l w = w\<lparr>trace := trace w @ [ConsoleError l]\<rparr>"

definition setTimeout :: "nat \<Rightarrow> 'd world \<Rightarrow> 'd world" where
  "setTimeout ms w = w\<lparr>trace := trace w @ [Wait ms]\<rparr>"

section \<open>executeWithRetry\<close>

text \<open>
  How a call ends: it returns a value, or it throws.
\<close>

datatype 'a completion = Returned 'a | Threw js_error

text \<open>
  \<open>executeWithRetry\<close> (\<open>src/lib/mcp.js\<close>, lines 65 to 82) is the loop
  \<open>for (let attempt = 1; attempt <= retries; attempt++)\<close>. A loop that ends
  without \<open>return\<close> or \<open>throw\<close> makes the function return \<open>undefined\<close>, which is
  \<open>Returned None\<close>.
\<close>

function executeWithRetry_loop ::
  "'d driver \<Rightarrow> js_string \<Rightarrow> js_string list \<Rightarrow> nat \<Rightarrow> nat \<Rightarrow> 'd world
     \<Rightarrow> exec_value option completion \<times> 'd world" where
  "executeWithRetry_loop drv sql params retries attempt w =
     (if attempt \<le> retries then
        (case pool_execute drv sql params w of
           (Inr v, w1) \<Rightarrow> (Returned (Some v), w1)
         | (Inl e, w1) \<Rightarrow>
             (let w2 = console_error (AttemptFailed attempt (err_message e)) w1 in
              if attempt = retries then (Threw e, w2)
              else executeWithRetry_loop drv sql params retries (attempt + 1)
                     (setTimeout 1000 w2)))
      else (Returned None, w))"
  by pat_completeness auto
termination
  by (relation "measure (\<lambda>(drv, sql, params, retries, attempt, w). retries + 1 - attempt)") auto

text \<open>
  The parameters \<open>params = []\<close> and \<open>retries = 2\<close> have defaults, which apply when the
  caller passes no argument (\<open>None\<close>).
\<close>

definition params_or_default :: "js_string list option \<Rightarrow> js_string list" where
  "params_or_default params = (case params of None \<Rightarrow> [] | Some ps \<Rightarrow> ps)"

definition retries_or_default :: "nat option \<Rightarrow> nat" where
  "retries_or_default retries = (case retries of None \<Rightarrow> 2 | Some n \<Rightarrow> n)"

definition executeWithRetry ::
  "'d driver \<Rightarrow> js_string \<Rightarrow> js_string list option \<Rightarrow> nat option \<Rightarrow> 'd world
     \<Rightarrow> exec_value option completion \<times> 'd world" where
  "executeWithRetry drv sql params retries w =
     executeWithRetry_loop drv sql (params_or_default params) (retries_or_default retries) 1 w"

section \<open>Values read by the handlers\<close>

text \<open>
  The properties of a write header that \<open>execute_sql\<close> reads. A property that an
  array of rows does not have is undefined.
\<close>

fun affectedRows :: "exec_result \<Rightarrow> int option" where
  "affectedRows (RowsResult rows) = None"
| "affectedRows (HeaderResult h) = h_affectedRows h"

fun insertId :: "exec_result \<Rightarrow> int option" where
  "insertId (RowsResult rows) = None"
| "insertId (HeaderResult h) = h_insertId h"

fun changedRows :: "exec_result \<Rightarrow> int option" where
  "changedRows (RowsResult rows) = None"
| "changedRows (HeaderResult h) = h_changedRows h"

fun warningCount :: "exec_result \<Rightarrow> int option" where
  "warningCount (RowsResult rows) = None"
| "warningCount (HeaderResult h) = h_warningCount h"

text \<open>
  Truthiness of a number that may be undefined: \<open>undefined\<close> and \<open>0\<close> are falsy.
\<close>

fun truthy_num :: "int option \<Rightarrow> bool" where
  "truthy_num None = False"
| "truthy_num (Some n) = (n \<noteq> 0)"

text \<open>
  \<open>x || 0\<close> on such a number.
\<close>

fun or_zero :: "int option \<Rightarrow> int" where
  "or_zero None = 0"
| "or_zero (Some n) = n"

text \<open>
  \<open>error.code || 'SQL_ERROR'\<close>: an undefined or empty code is falsy.
\<close>

fun code_or_default :: "js_string option \<Rightarrow> js_string" where
  "code_or_default None = lit ''SQL_ERROR''"
| "code_or_default (Some c) = (if c = [] then lit ''SQL_ERROR'' else c)"

definition field_json :: "field_packet \<Rightarrow> json" where
  "field_json f =
     JObj [(''name'', JStr (field_name f)), (''type'', JNum (field_type f)),
           (''length'', JNum (field_length f))]"

text \<open>
  The properties of a write header, as \<open>JSON.stringify\<close> keeps them: an undefined one is
  left out.
\<close>

definition opt_prop :: "string \<Rightarrow> int option \<Rightarrow> (string \<times> json) list" where
  "opt_prop k v = (case v of None \<Rightarrow> [] | Some n \<Rightarrow> [(k, JNum n)])"

fun result_json :: "exec_result \<Rightarrow> json" where
  "result_json (RowsResult rows) = JArr rows"
| "result_json (HeaderResult h) =
     JObj (opt_prop ''affectedRows'' (h_affectedRows h) @ opt_prop ''insertId'' (h_insertId h)
           @ opt_prop ''changedRows'' (h_changedRows h)
           @ opt_prop ''warningCount'' (h_warningCount h))"

text \<open>
  Destructuring \<open>const [rows, fields] = await executeWithRetry(...)\<close> throws a
  \<open>TypeError\<close> when the call resolved to \<open>undefined\<close>.
\<close>

definition not_iterable :: js_error where
  "not_iterable =
     JsError (lit ''undefined is not iterable (cannot read property Symbol(Symbol.iterator))'')
       None"

section \<open>The tool handlers\<close>

text \<open>
  The handlers of \<open>query_database\<close> (lines 100 to 138), \<open>execute_sql\<close> (lines 152
  to 233) and \<open>describe_table\<close> (lines 283 to 311). Each returns the object that it
  passes to \<open>JSON.stringify\<close>, and the state it leaves behind.
\<close>

definition trimmedSql :: "js_runtime \<Rightarrow> js_string \<Rightarrow> js_string" where
  "trimmedSql rt sql = toUpperCase rt (trim rt sql)"

definition sql_error_envelope :: "js_error \<Rightarrow> js_string \<Rightarrow> json" where
  "sql_error_envelope e sql =
     JObj [(''error'', JBool True), (''message'', JStr (err_message e)),
           (''code'', JStr (code_or_default (err_code e))), (''sql'', JStr sql)]"

definition read_only_gate :: "js_runtime \<Rightarrow> js_string \<Rightarrow> bool" where
  "read_only_gate rt sql =
     (\<not> (\<not> js_startsWith (trimmedSql rt sql) (lit ''SELECT'')
         \<and> \<not> js_startsWith (trimmedSql rt sql) (lit ''SHOW'')
         \<and> \<not> js_startsWith (trimmedSql rt sql) (lit ''DESCRIBE'')
         \<and> \<not> js_startsWith (trimmedSql rt sql) (lit ''EXPLAIN'')))"

definition only_select_error :: js_error where
  "only_select_error =
     JsError (lit ''Only SELECT, SHOW, DESCRIBE, and EXPLAIN queries are allowed with this tool'')
       None"

definition query_database ::
  "js_runtime \<Rightarrow> 'd driver \<Rightarrow> js_string \<Rightarrow> 'd world \<Rightarrow> json \<times> 'd world" where
  "query_database rt drv sql w =
     (if \<not> read_only_gate rt sql then (sql_error_envelope only_select_error sql, w)
      else
        (case executeWithRetry drv sql None None w of
           (Threw e, w1) \<Rightarrow> (sql_error_envelope e sql, w1)
         | (Returned None, w1) \<Rightarrow> (sql_error_envelope not_iterable sql, w1)
         | (Returned (Some (rows, fields')), w1) \<Rightarrow>
             (JObj [(''success'', JBool True),
                    (''data'', result_json rows),
                    (''rowCount'',
                       JNum (case rows of RowsResult rs \<Rightarrow> int (length rs) | HeaderResult h \<Rightarrow> 0)),
                    (''fields'',
                       JArr (case fields' of Some fs \<Rightarrow> map field_json fs | None \<Rightarrow> []))],
              w1)))"

definition isDangerous :: "js_runtime \<Rightarrow> js_string \<Rightarrow> bool" where
  "isDangerous rt sql =
     (js_startsWith (trimmedSql rt sql) (lit ''DELETE'')
      \<or> js_startsWith (trimmedSql rt sql) (lit ''UPDATE'')
      \<or> js_startsWith (trimmedSql rt sql) (lit ''DROP'')
      \<or> js_startsWith (trimmedSql rt sql) (lit ''TRUNCATE''))"

definition isStructural :: "js_runtime \<Rightarrow> js_string \<Rightarrow> bool" where
  "isStructural rt sql =
     (js_startsWith (trimmedSql rt sql) (lit ''CREATE'')
      \<or> js_startsWith (trimmedSql rt sql) (lit ''ALTER'')
      \<or> js_startsWith (trimmedSql rt sql) (lit ''INSERT''))"

definition confirmation_envelope :: "js_string \<Rightarrow> json" where
  "confirmation_envelope sql =
     JObj [(''error'', JBool True),
           (''message'',
              JStr (lit ''This SQL statement is potentially dangerous. Set confirm=true to execute.'')),
           (''sql'', JStr sql),
           (''requiresConfirmation'', JBool True)]"

text \<open>
  \<open>responseData\<close> of \<open>execute_sql\<close>: the object literal, then the properties that the
  five \<open>if\<close> statements add, in their order.
\<close>

definition responseData ::
  "js_string \<Rightarrow> exec_result \<Rightarrow> field_packet list option \<Rightarrow> (string \<times> json) list" where
  "responseData sql result fields' =
     [(''success'', JBool True),
      (''sql'', JStr sql),
      (''affectedRows'', JNum (or_zero (affectedRows result))),
      (''fieldCount'', JNum (case fields' of Some fs \<Rightarrow> int (length fs) | None \<Rightarrow> 0))]
     @ (if truthy_num (insertId result) then [(''insertId'', JNum (or_zero (insertId result)))]
        else [])
     @ (if changedRows result \<noteq> None then opt_prop ''changedRows'' (changedRows result) else [])
     @ (if truthy_num (warningCount result) \<and> or_zero (warningCount result) > 0
        then [(''warningCount'', JNum (or_zero (warningCount result)))] else [])
     @ (case result of
          RowsResult rs \<Rightarrow>
            if length rs > 0 then [(''data'', JArr rs), (''rowCount'', JNum (int (length rs)))]
            else []
        | HeaderResult h \<Rightarrow> [])
     @ (case fields' of
          Some fs \<Rightarrow> if length fs > 0 then [(''fields'', JArr (map field_json fs))] else []
        | None \<Rightarrow> [])"

definition execute_sql ::
  "js_runtime \<Rightarrow> 'd driver \<Rightarrow> js_string \<Rightarrow> bool \<Rightarrow> 'd world \<Rightarrow> json \<times> 'd world" where
  "execute_sql rt drv sql confirm w =
     (if isDangerous rt sql \<and> \<not> confirm then (confirmation_envelope sql, w)
      else
        (case executeWithRetry drv sql None None w of
           (Threw e, w1) \<Rightarrow> (sql_error_envelope e sql, w1)
         | (Returned None, w1) \<Rightarrow> (sql_error_envelope not_iterable sql, w1)
         | (Returned (Some (result, fields')), w1) \<Rightarrow> (JObj (responseData sql result fields'), w1)))"

definition table_error_envelope :: "js_error \<Rightarrow> js_string \<Rightarrow> json" where
  "table_error_envelope e table =
     JObj [(''error'', JBool True), (''message'', JStr (err_message e)),
           (''code'', JStr (code_or_default (err_code e))), (''table'', JStr table)]"

definition describe_table :: "'d driver \<Rightarrow> js_string \<Rightarrow> 'd world \<Rightarrow> json \<times> 'd world" where
  "describe_table drv table w =
     (case executeWithRetry drv (lit ''DESCRIBE ??'') (Some [table]) None w of
        (Threw e, w1) \<Rightarrow> (table_error_envelope e table, w1)
      | (Returned None, w1) \<Rightarrow> (table_error_envelope not_iterable table, w1)
      | (Returned (Some (rows, fields')), w1) \<Rightarrow>
          (JObj ([(''success'', JBool True), (''table'', JStr table),
                  (''columns'', result_json rows)]
                 @ (case rows of
                      RowsResult rs \<Rightarrow> [(''columnCount'', JNum (int (length rs)))]
                    | HeaderResult h \<Rightarrow> [])),
           w1))"

section \<open>cleanup\<close>

text \<open>
  The handler of SIGINT and SIGTERM (lines 397 to 409). \<open>pool\<close> tells whether the
  variable \<open>pool\<close> holds a pool; nothing in the source assigns it after the pool has
  been created. The \<open>try\<close> around \<open>pool.end()\<close> catches what it throws, and either
  branch writes a line with \<open>console.error\<close>.
\<close>

definition call_pool_end :: "'d pool_end \<Rightarrow> 'd world \<Rightarrow> js_error option \<times> 'd world" where
  "call_pool_end pend w =
     (case pend (db w) of (r, d) \<Rightarrow> (r, w\<lparr>db := d, trace := trace w @ [PoolEnd]\<rparr>))"

definition cleanup :: "'d pool_end \<Rightarrow> bool \<Rightarrow> 'd world \<Rightarrow> unit completion \<times> 'd world" where
  "cleanup pend pool w =
     (if pool then
        (case call_pool_end pend w of
           (None, w1) \<Rightarrow> (Returned (), console_error PoolClosed w1)
         | (Some e, w1) \<Rightarrow> (Returned (), console_error (PoolCloseError (err_message e)) w1))
      else (Returned (), w))"

section \<open>Reading an envelope and a trace\<close>

text \<open>
  The property \<open>k\<close> of an envelope, \<open>None\<close> when the envelope has no such property.
\<close>

definition json_get :: "json \<Rightarrow> string \<Rightarrow> json option" where
  "json_get j k = (case j of JObj kvs \<Rightarrow> map_of kvs k | _ \<Rightarrow> None)"

text \<open>
  The events between the state \<open>w\<close> and the later state \<open>w'\<close>, and the calls of
  \<open>pool.execute\<close> and of \<open>pool.end\<close> among events.
\<close>

definition new_events :: "'d world \<Rightarrow> 'd world \<Rightarrow> event list" where
  "new_events w w' = drop (length (trace w)) (trace w')"

fun executed :: "event \<Rightarrow> (js_string \<times> js_string list) list" where
  "executed (Execute sql params) = [(sql, params)]"
| "executed (ConsoleError l) = []"
| "executed (Wait ms) = []"
| "executed PoolEnd = []"

definition calls :: "event list \<Rightarrow> (js_string \<times> js_string list) list" where
  "calls evs = concat (map executed evs)"

definition new_calls :: "'d world \<Rightarrow> 'd world \<Rightarrow> (js_string \<times> js_string list) list" where
  "new_calls w w' = calls (new_events w w')"

definition end_calls :: "event list \<Rightarrow> nat" where
  "end_calls evs = length (filter (\<lambda>ev. ev = PoolEnd) evs)"


section \<open>Test doubles\<close>

text \<open>
  A runtime for ASCII text: on a string of ASCII code units \<open>trim\<close> removes the leading
  and trailing TAB, LF, VT, FF, CR and SPACE, and \<open>toUpperCase\<close> maps \<open>a\<close>..\<open>z\<close> to
  \<open>A\<close>..\<open>Z\<close> and keeps every other code unit. It stands for the platform in the
  examples, all of which are ASCII.
\<close>

definition ascii_space :: "16 word \<Rightarrow> bool" where
  "ascii_space c = (c \<in> set [0x09, 0x0A, 0x0B, 0x0C, 0x0D, 0x20])"

definition ascii_trim :: "js_string \<Rightarrow> js_string" where
  "ascii_trim s = rev (dropWhile ascii_space (rev (dropWhile ascii_space s)))"

definition ascii_upper :: "16 word \<Rightarrow> 16 word" where
  "ascii_upper c = (if 0x61 \<le> c \<and> c \<le> 0x7A then c - 0x20 else c)"

definition ascii_runtime :: js_runtime where
  "ascii_runtime = \<lparr>trim = ascii_trim, toUpperCase = map ascii_upper\<rparr>"

text \<open>
  A pool whose every execution succeeds with a write header (two of them), one whose
  every execution fails with a syntax error of the server, a \<open>pool.end\<close> that succeeds
  on a pool that is open and throws on one that is closed, and the states of a fresh
  process.
\<close>

definition ok_driver :: "unit driver" where
  "ok_driver d sql params = (Inr (HeaderResult (Header (Some 1) (Some 0) None (Some 0)), None), d)"

definition insert_driver :: "unit driver" where
  "insert_driver d sql params =
     (Inr (HeaderResult (Header (Some 1) (Some 7) (Some 0) (Some 2)), None), d)"

definition syntax_error :: js_error where
  "syntax_error =
     JsError (lit ''You have an error in your SQL syntax'') (Some (lit ''ER_PARSE_ERROR''))"

definition failing_driver :: "unit driver" where
  "failing_driver d sql params = (Inl syntax_error, d)"

definition closed_error :: js_error where
  "closed_error = JsError (lit ''Pool is closed.'') None"

definition closing_end :: "bool pool_end" where
  "closing_end closed = (if closed then Some closed_error else None, True)"

definition w0 :: "unit world" where
  "w0 = \<lparr>db = (), trace = []\<rparr>"

definition open_pool :: "bool world" where
  "open_pool = \<lparr>db = False, trace = []\<rparr>"

section \<open>The retry loop, step by step\<close>

declare executeWithRetry_loop.simps [simp del]


lemma pool_execute_trace:
  "pool_execute drv sql params w = (r, w1) \<Longrightarrow> trace w1 = trace w @ [Execute sql params]"
  by (auto simp: pool_execute_def split: prod.splits)

lemma loop_Inr:
  "attempt \<le> retries \<Longrightarrow> pool_execute drv sql params w = (Inr v, w1) \<Longrightarrow>
     executeWithRetry_loop drv sql params retries attempt w = (Returned (Some v), w1)"
  by (subst executeWithRetry_loop.simps) simp

lemma loop_Inl_last:
  "pool_execute drv sql params w = (Inl e, w1) \<Longrightarrow>
     executeWithRetry_loop drv sql params retries retries w
       = (Threw e, console_error (AttemptFailed retries (err_message e)) w1)"
  by (subst executeWithRetry_loop.simps) simp

lemma loop_Inl_more:
  "attempt < retries \<Longrightarrow> pool_execute drv sql params w = (Inl e, w1) \<Longrightarrow>
     executeWithRetry_loop drv sql params retries attempt w
       = executeWithRetry_loop drv sql params retries (attempt + 1)
           (setTimeout 1000 (console_error (AttemptFailed attempt (err_message e)) w1))"
  by (subst executeWithRetry_loop.simps) simp

lemma calls_simps [simp]:
  "calls [] = []"
  "calls (Execute sql params # evs) = (sql, params) # calls evs"
  "calls (ConsoleError l # evs) = calls evs"
  "calls (Wait ms # evs) = calls evs"
  "calls (PoolEnd # evs) = calls evs"
  "calls (evs @ evs') = calls evs @ calls evs'"
  by (simp_all add: calls_def)

lemma loop_spec:
  "attempt \<le> retries \<Longrightarrow>
     \<exists>evs n. 1 \<le> n \<and> n \<le> retries + 1 - attempt
       \<and> trace (snd (executeWithRetry_loop drv sql params retries attempt w)) = trace w @ evs
       \<and> calls evs = replicate n (sql, params)
       \<and> fst (executeWithRetry_loop drv sql params retries attempt w) \<noteq> Returned None"
proof (induction "retries - attempt" arbitrary: attempt w)
  case 0
  then have eq: "attempt = retries" by simp
  obtain r w1 where pe: "pool_execute drv sql params w = (r, w1)" by force
  note pw = pool_execute_trace [OF pe]
  show ?case
  proof (cases r)
    case (Inr v)
    with pe have "pool_execute drv sql params w = (Inr v, w1)" by simp
    from loop_Inr [OF "0.prems" this] pw eq show ?thesis
      by (intro exI [of _ "[Execute sql params]"] exI [of _ 1]) simp
  next
    case (Inl e)
    with pe have "pool_execute drv sql params w = (Inl e, w1)" by simp
    from loop_Inl_last [OF this, of retries] pw eq show ?thesis
      by (intro exI [of _ "[Execute sql params,
            ConsoleError (AttemptFailed retries (err_message e))]"] exI [of _ 1])
         (simp add: console_error_def)
  qed
next
  case (Suc k)
  then have lt: "attempt < retries" and k: "k = retries - (attempt + 1)" by simp_all
  obtain r w1 where pe: "pool_execute drv sql params w = (r, w1)" by force
  note pw = pool_execute_trace [OF pe]
  show ?case
  proof (cases r)
    case (Inr v)
    with pe have "pool_execute drv sql params w = (Inr v, w1)" by simp
    from loop_Inr [OF Suc.prems this] pw lt show ?thesis
      by (intro exI [of _ "[Execute sql params]"] exI [of _ 1]) simp
  next
    case (Inl e)
    let ?w2 = "setTimeout 1000 (console_error (AttemptFailed attempt (err_message e)) w1)"
    have le: "attempt + 1 \<le> retries" using lt by simp
    from Inl pe have pe': "pool_execute drv sql params w = (Inl e, w1)" by simp
    note step = loop_Inl_more [OF lt pe']
    from Suc.hyps(1) [OF k le, of ?w2] obtain evs n where n:
      "1 \<le> n" "n \<le> retries + 1 - (attempt + 1)"
      "trace (snd (executeWithRetry_loop drv sql params retries (attempt + 1) ?w2))
           = trace ?w2 @ evs"
      "calls evs = replicate n (sql, params)"
      "fst (executeWithRetry_loop drv sql params retries (attempt + 1) ?w2) \<noteq> Returned None"
      by blast
    have w2: "trace ?w2 = trace w @ [Execute sql params,
        ConsoleError (AttemptFailed attempt (err_message e)), Wait 1000]"
      using pw by (simp add: setTimeout_def console_error_def)
    have "Suc n \<le> retries + 1 - attempt" using n(2) lt by simp
    then show ?thesis
      using n w2 unfolding step
      by (intro exI [of _ "[Execute sql params,
            ConsoleError (AttemptFailed attempt (err_message e)), Wait 1000] @ evs"]
          exI [of _ "Suc n"]) simp
  qed
qed



section \<open>Facts about the handlers\<close>

lemma new_calls_append: "trace w' = trace w @ evs \<Longrightarrow> new_calls w w' = calls evs"
  by (simp add: new_calls_def new_events_def)

lemma executeWithRetry_twice:
  "\<exists>n. (n = 1 \<or> n = 2)
     \<and> new_calls w (snd (executeWithRetry drv sql params None w))
         = replicate n (sql, params_or_default params)
     \<and> fst (executeWithRetry drv sql params None w) \<noteq> Returned None"
proof -
  have "(1::nat) \<le> 2" by simp
  from loop_spec [OF this, of drv sql "params_or_default params" w] obtain evs n where n:
    "1 \<le> n" "n \<le> 2"
    "trace (snd (executeWithRetry drv sql params None w)) = trace w @ evs"
    "calls evs = replicate n (sql, params_or_default params)"
    "fst (executeWithRetry drv sql params None w) \<noteq> Returned None"
    unfolding executeWithRetry_def retries_or_default_def by auto
  from n(1,2) have "n = 1 \<or> n = 2" by arith
  with n(4,5) new_calls_append [OF n(3)] show ?thesis
    by (intro exI [of _ n]) simp
qed

lemma execute_sql_gated:
  "isDangerous rt sql \<Longrightarrow> execute_sql rt drv sql False w = (confirmation_envelope sql, w)"
  by (simp add: execute_sql_def)

lemma execute_sql_runs:
  "\<not> (isDangerous rt sql \<and> \<not> confirm) \<Longrightarrow>
     snd (execute_sql rt drv sql confirm w) = snd (executeWithRetry drv sql None None w)"
  by (auto simp: execute_sql_def split: prod.splits completion.splits option.splits)

lemma execute_sql_failure:
  "\<not> (isDangerous rt sql \<and> \<not> confirm) \<Longrightarrow>
   fst (executeWithRetry drv sql None None w) = Threw e \<Longrightarrow>
     fst (execute_sql rt drv sql confirm w) = sql_error_envelope e sql"
  by (auto simp: execute_sql_def split: prod.splits completion.splits option.splits)

lemma execute_sql_success:
  "\<not> (isDangerous rt sql \<and> \<not> confirm) \<Longrightarrow>
   fst (executeWithRetry drv sql None None w) = Returned (Some (result, fields')) \<Longrightarrow>
     fst (execute_sql rt drv sql confirm w) = JObj (responseData sql result fields')"
  by (auto simp: execute_sql_def split: prod.splits completion.splits option.splits)

lemma query_database_rejected:
  "\<not> read_only_gate rt sql \<Longrightarrow>
     query_database rt drv sql w = (sql_error_envelope only_select_error sql, w)"
  by (simp add: query_database_def)

lemma query_database_runs:
  "read_only_gate rt sql \<Longrightarrow>
     snd (query_database rt drv sql w) = snd (executeWithRetry drv sql None None w)"
  by (auto simp: query_database_def split: prod.splits completion.splits option.splits)

lemma describe_table_runs:
  "snd (describe_table drv table w)
     = snd (executeWithRetry drv (lit ''DESCRIBE ??'') (Some [table]) None w)"
  by (auto simp: describe_table_def split: prod.splits completion.splits option.splits)

lemma js_startsWith_append: "js_startsWith (p @ r) p"
  by (simp add: js_startsWith_def)

lemma js_startsWith_Cons: "js_startsWith s (c # p) \<Longrightarrow> \<exists>r. s = c # r"
  by (cases s) (simp_all add: js_startsWith_def)

lemma structural_not_dangerous: "isStructural rt sql \<Longrightarrow> \<not> isDangerous rt sql"
  unfolding isStructural_def isDangerous_def lit_def
  by (auto dest!: js_startsWith_Cons)

lemma json_get_JObj: "json_get (JObj kvs) k = map_of kvs k"
  by (simp add: json_get_def)

lemma responseData_no_confirmation:
  "map_of (responseData sql result fields') ''requiresConfirmation'' = None"
  by (simp add: responseData_def opt_prop_def split: option.splits exec_result.splits)

lemma responseData_header_props:
  "map_of (responseData sql (HeaderResult h) fields') ''success'' = Some (JBool True)"
  "map_of (responseData sql (HeaderResult h) fields') ''sql'' = Some (JStr sql)"
  "map_of (responseData sql (HeaderResult h) fields') ''affectedRows''
     = Some (JNum (or_zero (h_affectedRows h)))"
  "map_of (responseData sql (HeaderResult h) fields') ''insertId''
     = (case h_insertId h of None \<Rightarrow> None | Some n \<Rightarrow> if n = 0 then None else Some (JNum n))"
  "map_of (responseData sql (HeaderResult h) fields') ''changedRows''
     = map_option JNum (h_changedRows h)"
  "map_of (responseData sql (HeaderResult h) fields') ''warningCount''
     = (case h_warningCount h of None \<Rightarrow> None | Some n \<Rightarrow> if 0 < n then Some (JNum n) else None)"
  by (simp_all add: responseData_def opt_prop_def split: option.splits)

lemma sql_error_envelope_props:
  "json_get (sql_error_envelope e sql) ''error'' = Some (JBool True)"
  "json_get (sql_error_envelope e sql) ''message'' = Some (JStr (err_message e))"
  "json_get (sql_error_envelope e sql) ''code'' = Some (JStr (code_or_default (err_code e)))"
  "json_get (sql_error_envelope e sql) ''sql'' = Some (JStr sql)"
  "json_get (sql_error_envelope e sql) ''requiresConfirmation'' = None"
  by (simp_all add: sql_error_envelope_def json_get_def)

lemma confirmation_envelope_props:
  "json_get (confirmation_envelope sql) ''error'' = Some (JBool True)"
  "json_get (confirmation_envelope sql) ''sql'' = Some (JStr sql)"
  "json_get (confirmation_envelope sql) ''requiresConfirmation'' = Some (JBool True)"
  "json_get (confirmation_envelope sql) ''code'' = None"
  by (simp_all add: confirmation_envelope_def json_get_def)

lemma execute_sql_no_confirmation_asked:
  "\<not> (isDangerous rt sql \<and> \<not> confirm) \<Longrightarrow>
     json_get (fst (execute_sql rt drv sql confirm w)) ''requiresConfirmation'' = None"
  by (auto simp: execute_sql_def sql_error_envelope_props json_get_JObj responseData_no_confirmation
           split: prod.splits completion.splits option.splits)

lemma execute_sql_not_gated_calls:
  "\<not> (isDangerous rt sql \<and> \<not> confirm) \<Longrightarrow>
     \<exists>n. (n = 1 \<or> n = 2)
       \<and> new_calls w (snd (execute_sql rt drv sql confirm w)) = replicate n (sql, [])"
  using executeWithRetry_twice [of w drv sql None]
  by (auto simp: execute_sql_runs params_or_default_def)

lemma not_dangerous_confirm_irrelevant:
  "\<not> isDangerous rt sql \<Longrightarrow> execute_sql rt drv sql False w = execute_sql rt drv sql True w"
  by (simp add: execute_sql_def)

lemma query_database_passed_calls:
  "read_only_gate rt sql \<Longrightarrow>
     \<exists>n. (n = 1 \<or> n = 2)
       \<and> new_calls w (snd (query_database rt drv sql w)) = replicate n (sql, [])"
  using executeWithRetry_twice [of w drv sql None]
  by (auto simp: query_database_runs params_or_default_def)

lemma describe_table_calls:
  "\<exists>n. (n = 1 \<or> n = 2)
     \<and> new_calls w (snd (describe_table drv table w))
         = replicate n (lit ''DESCRIBE ??'', [table])"
  using executeWithRetry_twice [of w drv "lit ''DESCRIBE ??''" "Some [table]"]
  by (auto simp: describe_table_runs params_or_default_def)

lemma describe_table_sql_texts:
  "set (map fst (new_calls w (snd (describe_table drv table w)))) = {lit ''DESCRIBE ??''}"
  using describe_table_calls [of w drv table] by auto

lemma cleanup_returns: "fst (cleanup pend pool w) = Returned ()"
  by (simp add: cleanup_def split: prod.splits option.splits)

lemma cleanup_eq:
  "cleanup pend True w =
     (Returned (),
      w\<lparr>db := snd (pend (db w)),
        trace := trace w @
          [PoolEnd,
           ConsoleError (case fst (pend (db w)) of None \<Rightarrow> PoolClosed
                         | Some e \<Rightarrow> PoolCloseError (err_message e))]\<rparr>)"
  by (simp add: cleanup_def call_pool_end_def console_error_def split: prod.splits option.splits)

lemma end_calls_simps [simp]:
  "end_calls [] = 0"
  "end_calls (PoolEnd # evs) = Suc (end_calls evs)"
  "end_calls (ConsoleError l # evs) = end_calls evs"
  "end_calls (evs @ evs') = end_calls evs + end_calls evs'"
  by (simp_all add: end_calls_def)

lemma responseData_no_error:
  "map_of (responseData sql result fields') ''error'' = None"
  by (simp add: responseData_def opt_prop_def split: option.splits exec_result.splits)

lemma execute_sql_error_shape:
  "\<not> (isDangerous rt sql \<and> \<not> confirm) \<Longrightarrow>
   json_get (fst (execute_sql rt drv sql confirm w)) ''error'' = Some (JBool True) \<Longrightarrow>
     json_get (fst (execute_sql rt drv sql confirm w)) ''requiresConfirmation'' = None
     \<and> (\<exists>c. json_get (fst (execute_sql rt drv sql confirm w)) ''code'' = Some (JStr c))"
  by (auto simp: execute_sql_def sql_error_envelope_props json_get_JObj responseData_no_error
           split: prod.splits completion.splits option.splits)

section \<open>The claims\<close>

text \<open>
  C1, as the code has it. \<open>execute_sql\<close> holds back only what begins with DELETE,
  UPDATE, DROP or TRUNCATE. A statement whose trimmed, uppercased text begins with none
  of these four, and so every statement that begins with none of the eleven recognised
  keywords, is not held back: with \<open>confirm = false\<close> the handler does what it does
  with \<open>confirm = true\<close>, it submits the statement to the database, once or twice,
  with the original text and no parameters, and the envelope it returns does not ask
  for confirmation.
\<close>

theorem execute_sql_unrecognized_executes:
  assumes "\<not> js_startsWith (toUpperCase rt (trim rt sql)) (lit ''DELETE'')"
    and "\<not> js_startsWith (toUpperCase rt (trim rt sql)) (lit ''UPDATE'')"
    and "\<not> js_startsWith (toUpperCase rt (trim rt sql)) (lit ''DROP'')"
    and "\<not> js_startsWith (toUpperCase rt (trim rt sql)) (lit ''TRUNCATE'')"
  shows "execute_sql rt drv sql False w = execute_sql rt drv sql True w
         \<and> json_get (fst (execute_sql rt drv sql False w)) ''requiresConfirmation'' = None
         \<and> (\<exists>n. (n = 1 \<or> n = 2)
               \<and> new_calls w (snd (execute_sql rt drv sql False w)) = replicate n (sql, []))"
proof -
  from assms have nd: "\<not> isDangerous rt sql" by (simp add: isDangerous_def trimmedSql_def)
  then have g: "\<not> (isDangerous rt sql \<and> \<not> False)" by simp
  from not_dangerous_confirm_irrelevant [OF nd, of drv w]
    execute_sql_no_confirmation_asked [OF g, of drv w]
    execute_sql_not_gated_calls [OF g, of w drv]
  show ?thesis by blast
qed

theorem execute_sql_unrecognized_executes_witness:
  "\<not> js_startsWith (toUpperCase ascii_runtime (trim ascii_runtime (lit ''grant all on t to u'')))
       (lit ''DELETE'')
   \<and> \<not> js_startsWith (toUpperCase ascii_runtime (trim ascii_runtime (lit ''grant all on t to u'')))
       (lit ''UPDATE'')
   \<and> \<not> js_startsWith (toUpperCase ascii_runtime (trim ascii_runtime (lit ''grant all on t to u'')))
       (lit ''DROP'')
   \<and> \<not> js_startsWith (toUpperCase ascii_runtime (trim ascii_runtime (lit ''grant all on t to u'')))
       (lit ''TRUNCATE'')
   \<and> execute_sql ascii_runtime ok_driver (lit ''grant all on t to u'') False w0
       = execute_sql ascii_runtime ok_driver (lit ''grant all on t to u'') True w0
   \<and> json_get (fst (execute_sql ascii_runtime ok_driver (lit ''grant all on t to u'') False w0))
         ''requiresConfirmation'' = None
   \<and> (\<exists>n. (n = 1 \<or> n = 2)
         \<and> new_calls w0 (snd (execute_sql ascii_runtime ok_driver (lit ''grant all on t to u'')
               False w0))
             = replicate n (lit ''grant all on t to u'', []))"
proof -
  have a: "\<not> js_startsWith (toUpperCase ascii_runtime (trim ascii_runtime
      (lit ''grant all on t to u''))) (lit ''DELETE'')" by code_simp
  have b: "\<not> js_startsWith (toUpperCase ascii_runtime (trim ascii_runtime
      (lit ''grant all on t to u''))) (lit ''UPDATE'')" by code_simp
  have c: "\<not> js_startsWith (toUpperCase ascii_runtime (trim ascii_runtime
      (lit ''grant all on t to u''))) (lit ''DROP'')" by code_simp
  have d: "\<not> js_startsWith (toUpperCase ascii_runtime (trim ascii_runtime
      (lit ''grant all on t to u''))) (lit ''TRUNCATE'')" by code_simp
  from execute_sql_unrecognized_executes [OF a b c d, of ok_driver w0] a b c d
  show ?thesis by blast
qed

theorem execute_sql_unrecognized_counterexample:
  "\<not> js_startsWith (trimmedSql ascii_runtime (lit ''GRANT ALL ON t TO u'')) (lit ''SELECT'')
   \<and> \<not> js_startsWith (trimmedSql ascii_runtime (lit ''GRANT ALL ON t TO u'')) (lit ''SHOW'')
   \<and> \<not> js_startsWith (trimmedSql ascii_runtime (lit ''GRANT ALL ON t TO u'')) (lit ''DESCRIBE'')
   \<and> \<not> js_startsWith (trimmedSql ascii_runtime (lit ''GRANT ALL ON t TO u'')) (lit ''EXPLAIN'')
   \<and> \<not> js_startsWith (trimmedSql ascii_runtime (lit ''GRANT ALL ON t TO u'')) (lit ''CREATE'')
   \<and> \<not> js_startsWith (trimmedSql ascii_runtime (lit ''GRANT ALL ON t TO u'')) (lit ''ALTER'')
   \<and> \<not> js_startsWith (trimmedSql ascii_runtime (lit ''GRANT ALL ON t TO u'')) (lit ''INSERT'')
   \<and> \<not> js_startsWith (trimmedSql ascii_runtime (lit ''GRANT ALL ON t TO u'')) (lit ''DELETE'')
   \<and> \<not> js_startsWith (trimmedSql ascii_runtime (lit ''GRANT ALL ON t TO u'')) (lit ''UPDATE'')
   \<and> \<not> js_startsWith (trimmedSql ascii_runtime (lit ''GRANT ALL ON t TO u'')) (lit ''DROP'')
   \<and> \<not> js_startsWith (trimmedSql ascii_runtime (lit ''GRANT ALL ON t TO u'')) (lit ''TRUNCATE'')
   \<and> fst (execute_sql ascii_runtime ok_driver (lit ''GRANT ALL ON t TO u'') False w0)
       = JObj [(''success'', JBool True), (''sql'', JStr (lit ''GRANT ALL ON t TO u'')),
               (''affectedRows'', JNum 1), (''fieldCount'', JNum 0)]
   \<and> trace (snd (execute_sql ascii_runtime ok_driver (lit ''GRANT ALL ON t TO u'') False w0))
       = [Execute (lit ''GRANT ALL ON t TO u'') []]"
  by (intro conjI; code_simp)




text \<open>
  C3. When the trimmed, uppercased text begins with DELETE, UPDATE, DROP or TRUNCATE,
  \<open>execute_sql\<close> with \<open>confirm = false\<close> returns an envelope with
  \<open>requiresConfirmation: true\<close> and the original sql, and leaves the state as it was:
  no call of \<open>pool.execute\<close> is made, and nothing else happens either.
\<close>

theorem execute_sql_dangerous_requires_confirmation:
  assumes "kw \<in> set [lit ''DELETE'', lit ''UPDATE'', lit ''DROP'', lit ''TRUNCATE'']"
    and "js_startsWith (toUpperCase rt (trim rt sql)) kw"
  shows "json_get (fst (execute_sql rt drv sql False w)) ''requiresConfirmation''
           = Some (JBool True)
         \<and> json_get (fst (execute_sql rt drv sql False w)) ''sql'' = Some (JStr sql)
         \<and> snd (execute_sql rt drv sql False w) = w
         \<and> new_calls w (snd (execute_sql rt drv sql False w)) = []"
proof -
  from assms have "isDangerous rt sql" by (auto simp: isDangerous_def trimmedSql_def)
  from execute_sql_gated [OF this, of drv w] show ?thesis
    by (simp add: confirmation_envelope_props new_calls_def new_events_def)
qed

theorem execute_sql_dangerous_requires_confirmation_witness:
  "lit ''DELETE'' \<in> set [lit ''DELETE'', lit ''UPDATE'', lit ''DROP'', lit ''TRUNCATE'']
   \<and> js_startsWith (toUpperCase ascii_runtime (trim ascii_runtime (lit ''DELETE FROM t'')))
         (lit ''DELETE'')
   \<and> json_get (fst (execute_sql ascii_runtime ok_driver (lit ''DELETE FROM t'') False w0))
         ''requiresConfirmation'' = Some (JBool True)
   \<and> json_get (fst (execute_sql ascii_runtime ok_driver (lit ''DELETE FROM t'') False w0)) ''sql''
       = Some (JStr (lit ''DELETE FROM t''))
   \<and> snd (execute_sql ascii_runtime ok_driver (lit ''DELETE FROM t'') False w0) = w0
   \<and> new_calls w0 (snd (execute_sql ascii_runtime ok_driver (lit ''DELETE FROM t'') False w0)) = []"
proof -
  have a: "lit ''DELETE'' \<in> set [lit ''DELETE'', lit ''UPDATE'', lit ''DROP'', lit ''TRUNCATE'']"
    by simp
  have b: "js_startsWith (toUpperCase ascii_runtime (trim ascii_runtime (lit ''DELETE FROM t'')))
         (lit ''DELETE'')" by code_simp
  from execute_sql_dangerous_requires_confirmation [OF a b, of ok_driver w0] a b
  show ?thesis by blast
qed

text \<open>
  C4. When the trimmed, uppercased text begins with none of SELECT, SHOW, DESCRIBE and
  EXPLAIN, \<open>query_database\<close> returns an error envelope with \<open>error: true\<close>, a
  message, a code and the original sql, and leaves the state as it was: no call of
  \<open>pool.execute\<close> is made.
\<close>

theorem query_database_rejects_before_execution:
  assumes "\<not> js_startsWith (toUpperCase rt (trim rt sql)) (lit ''SELECT'')"
    and "\<not> js_startsWith (toUpperCase rt (trim rt sql)) (lit ''SHOW'')"
    and "\<not> js_startsWith (toUpperCase rt (trim rt sql)) (lit ''DESCRIBE'')"
    and "\<not> js_startsWith (toUpperCase rt (trim rt sql)) (lit ''EXPLAIN'')"
  shows "json_get (fst (query_database rt drv sql w)) ''error'' = Some (JBool True)
         \<and> json_get (fst (query_database rt drv sql w)) ''message''
             = Some (JStr (lit
                 ''Only SELECT, SHOW, DESCRIBE, and EXPLAIN queries are allowed with this tool''))
         \<and> json_get (fst (query_database rt drv sql w)) ''code'' = Some (JStr (lit ''SQL_ERROR''))
         \<and> json_get (fst (query_database rt drv sql w)) ''sql'' = Some (JStr sql)
         \<and> snd (query_database rt drv sql w) = w
         \<and> new_calls w (snd (query_database rt drv sql w)) = []"
proof -
  from assms have "\<not> read_only_gate rt sql" by (simp add: read_only_gate_def trimmedSql_def)
  from query_database_rejected [OF this, of drv w] show ?thesis
    by (simp add: sql_error_envelope_props only_select_error_def new_calls_def new_events_def)
qed

theorem query_database_rejects_before_execution_witness:
  "\<not> js_startsWith (toUpperCase ascii_runtime (trim ascii_runtime (lit ''DELETE FROM t'')))
       (lit ''SELECT'')
   \<and> \<not> js_startsWith (toUpperCase ascii_runtime (trim ascii_runtime (lit ''DELETE FROM t'')))
       (lit ''SHOW'')
   \<and> \<not> js_startsWith (toUpperCase ascii_runtime (trim ascii_runtime (lit ''DELETE FROM t'')))
       (lit ''DESCRIBE'')
   \<and> \<not> js_startsWith (toUpperCase ascii_runtime (trim ascii_runtime (lit ''DELETE FROM t'')))
       (lit ''EXPLAIN'')
   \<and> json_get (fst (query_database ascii_runtime ok_driver (lit ''DELETE FROM t'') w0)) ''error''
       = Some (JBool True)
   \<and> json_get (fst (query_database ascii_runtime ok_driver (lit ''DELETE FROM t'') w0)) ''message''
       = Some (JStr (lit
           ''Only SELECT, SHOW, DESCRIBE, and EXPLAIN queries are allowed with this tool''))
   \<and> json_get (fst (query_database ascii_runtime ok_driver (lit ''DELETE FROM t'') w0)) ''code''
       = Some (JStr (lit ''SQL_ERROR''))
   \<and> json_get (fst (query_database ascii_runtime ok_driver (lit ''DELETE FROM t'') w0)) ''sql''
       = Some (JStr (lit ''DELETE FROM t''))
   \<and> snd (query_database ascii_runtime ok_driver (lit ''DELETE FROM t'') w0) = w0
   \<and> new_calls w0 (snd (query_database ascii_runtime ok_driver (lit ''DELETE FROM t'') w0)) = []"
proof -
  have a: "\<not> js_startsWith (toUpperCase ascii_runtime (trim ascii_runtime (lit ''DELETE FROM t'')))
       (lit ''SELECT'')" by code_simp
  have b: "\<not> js_startsWith (toUpperCase ascii_runtime (trim ascii_runtime (lit ''DELETE FROM t'')))
       (lit ''SHOW'')" by code_simp
  have c: "\<not> js_startsWith (toUpperCase ascii_runtime (trim ascii_runtime (lit ''DELETE FROM t'')))
       (lit ''DESCRIBE'')" by code_simp
  have d: "\<not> js_startsWith (toUpperCase ascii_runtime (trim ascii_runtime (lit ''DELETE FROM t'')))
       (lit ''EXPLAIN'')" by code_simp
  from query_database_rejects_before_execution [OF a b c d, of ok_driver w0] a b c d
  show ?thesis by blast
qed

text \<open>
  C5, as the code has it. The envelope that asks for confirmation is flagged as an
  error: it carries \<open>error: true\<close>, as a failure envelope does. What tells the two
  apart is \<open>requiresConfirmation: true\<close>, which no failure envelope of
  \<open>execute_sql\<close> has, and \<open>code\<close>, which every failure envelope of \<open>execute_sql\<close>
  has and the confirmation envelope has not. A failure envelope is what the handler
  returns, for whatever statement and whatever \<open>confirm\<close>, when the statement passed
  the gate and its execution threw.
\<close>

theorem confirmation_envelope_is_error_flagged:
  assumes "kw \<in> set [lit ''DELETE'', lit ''UPDATE'', lit ''DROP'', lit ''TRUNCATE'']"
    and "js_startsWith (toUpperCase rt (trim rt sql)) kw"
  shows "json_get (fst (execute_sql rt drv sql False w)) ''error'' = Some (JBool True)
         \<and> json_get (fst (execute_sql rt drv sql False w)) ''requiresConfirmation''
             = Some (JBool True)
         \<and> json_get (fst (execute_sql rt drv sql False w)) ''code'' = None
         \<and> (\<not> (isDangerous rt' sql' \<and> \<not> confirm')
              \<and> fst (executeWithRetry drv' sql' None None w') = Threw e \<longrightarrow>
              json_get (fst (execute_sql rt' drv' sql' confirm' w')) ''error'' = Some (JBool True)
              \<and> json_get (fst (execute_sql rt' drv' sql' confirm' w')) ''requiresConfirmation''
                  = None
              \<and> json_get (fst (execute_sql rt' drv' sql' confirm' w')) ''code''
                  = Some (JStr (code_or_default (err_code e)))
              \<and> json_get (fst (execute_sql rt' drv' sql' confirm' w')) ''message''
                  = Some (JStr (err_message e)))
         \<and> (\<not> (isDangerous rt' sql' \<and> \<not> confirm')
              \<and> json_get (fst (execute_sql rt' drv' sql' confirm' w')) ''error''
                  = Some (JBool True) \<longrightarrow>
              json_get (fst (execute_sql rt' drv' sql' confirm' w')) ''requiresConfirmation''
                = None
              \<and> (\<exists>c. json_get (fst (execute_sql rt' drv' sql' confirm' w')) ''code''
                       = Some (JStr c)))"
proof -
  from assms have "isDangerous rt sql" by (auto simp: isDangerous_def trimmedSql_def)
  from execute_sql_gated [OF this, of drv w]
  have 1: "fst (execute_sql rt drv sql False w) = confirmation_envelope sql" by simp
  have 2: "\<not> (isDangerous rt' sql' \<and> \<not> confirm')
              \<and> fst (executeWithRetry drv' sql' None None w') = Threw e \<longrightarrow>
              json_get (fst (execute_sql rt' drv' sql' confirm' w')) ''error'' = Some (JBool True)
              \<and> json_get (fst (execute_sql rt' drv' sql' confirm' w')) ''requiresConfirmation''
                  = None
              \<and> json_get (fst (execute_sql rt' drv' sql' confirm' w')) ''code''
                  = Some (JStr (code_or_default (err_code e)))
              \<and> json_get (fst (execute_sql rt' drv' sql' confirm' w')) ''message''
                  = Some (JStr (err_message e))"
    using execute_sql_failure [of rt' sql' confirm' drv' w' e]
    by (auto simp: sql_error_envelope_props)
  have 3: "\<not> (isDangerous rt' sql' \<and> \<not> confirm')
              \<and> json_get (fst (execute_sql rt' drv' sql' confirm' w')) ''error''
                  = Some (JBool True) \<longrightarrow>
              json_get (fst (execute_sql rt' drv' sql' confirm' w')) ''requiresConfirmation''
                = None
              \<and> (\<exists>c. json_get (fst (execute_sql rt' drv' sql' confirm' w')) ''code''
                       = Some (JStr c))"
    using execute_sql_error_shape [of rt' sql' confirm' drv' w'] by blast
  from 2 3 show ?thesis
    by (simp only: 1 confirmation_envelope_props)
qed

theorem confirmation_envelope_is_error_flagged_witness:
  "lit ''DELETE'' \<in> set [lit ''DELETE'', lit ''UPDATE'', lit ''DROP'', lit ''TRUNCATE'']
   \<and> js_startsWith (toUpperCase ascii_runtime (trim ascii_runtime (lit ''DELETE FROM t'')))
         (lit ''DELETE'')
   \<and> json_get (fst (execute_sql ascii_runtime failing_driver (lit ''DELETE FROM t'') False w0))
         ''error'' = Some (JBool True)
   \<and> json_get (fst (execute_sql ascii_runtime failing_driver (lit ''DELETE FROM t'') False w0))
         ''requiresConfirmation'' = Some (JBool True)
   \<and> json_get (fst (execute_sql ascii_runtime failing_driver (lit ''DELETE FROM t'') False w0))
         ''code'' = None
   \<and> \<not> (isDangerous ascii_runtime (lit ''INSERT INTO t VALUES (1)'') \<and> \<not> False)
   \<and> fst (executeWithRetry failing_driver (lit ''INSERT INTO t VALUES (1)'') None None w0)
       = Threw syntax_error
   \<and> json_get (fst (execute_sql ascii_runtime failing_driver (lit ''INSERT INTO t VALUES (1)'')
         False w0)) ''error'' = Some (JBool True)
   \<and> json_get (fst (execute_sql ascii_runtime failing_driver (lit ''INSERT INTO t VALUES (1)'')
         False w0)) ''requiresConfirmation'' = None
   \<and> json_get (fst (execute_sql ascii_runtime failing_driver (lit ''INSERT INTO t VALUES (1)'')
         False w0)) ''code'' = Some (JStr (lit ''ER_PARSE_ERROR''))"
proof -
  have a: "lit ''DELETE'' \<in> set [lit ''DELETE'', lit ''UPDATE'', lit ''DROP'', lit ''TRUNCATE'']"
    by simp
  have b: "js_startsWith (toUpperCase ascii_runtime (trim ascii_runtime (lit ''DELETE FROM t'')))
         (lit ''DELETE'')" by code_simp
  have c: "\<not> (isDangerous ascii_runtime (lit ''INSERT INTO t VALUES (1)'') \<and> \<not> False)"
    by code_simp
  have d: "fst (executeWithRetry failing_driver (lit ''INSERT INTO t VALUES (1)'') None None w0)
       = Threw syntax_error" by code_simp
  have e: "code_or_default (err_code syntax_error) = lit ''ER_PARSE_ERROR''" by code_simp
  from confirmation_envelope_is_error_flagged [where drv = failing_driver and w = w0
      and rt' = ascii_runtime and sql' = "lit ''INSERT INTO t VALUES (1)''" and confirm' = False
      and drv' = failing_driver and w' = w0 and e = syntax_error, OF a b]
    a b c d e
  show ?thesis by simp
qed

theorem confirmation_envelope_counterexample:
  "json_get (fst (execute_sql ascii_runtime ok_driver (lit ''DELETE FROM t'') False w0))
     ''requiresConfirmation'' = Some (JBool True)
   \<and> json_get (fst (execute_sql ascii_runtime ok_driver (lit ''DELETE FROM t'') False w0)) ''error''
     = Some (JBool True)"
  by (intro conjI; code_simp)

text \<open>
  C6. When \<open>execute_sql\<close> runs a statement and the driver resolves to a write header,
  the envelope has \<open>success: true\<close>, the original sql and \<open>affectedRows\<close>; it has
  \<open>insertId\<close> exactly when the header's is defined and not zero, \<open>changedRows\<close>
  exactly when the header's is defined, and \<open>warningCount\<close> exactly when the header's
  is greater than zero, each with the header's value.
\<close>

theorem execute_sql_write_envelope:
  assumes "\<not> (isDangerous rt sql \<and> \<not> confirm)"
    and "fst (executeWithRetry drv sql None None w) = Returned (Some (HeaderResult h, fields'))"
  shows "json_get (fst (execute_sql rt drv sql confirm w)) ''success'' = Some (JBool True)
         \<and> json_get (fst (execute_sql rt drv sql confirm w)) ''sql'' = Some (JStr sql)
         \<and> json_get (fst (execute_sql rt drv sql confirm w)) ''affectedRows''
             = Some (JNum (or_zero (h_affectedRows h)))
         \<and> json_get (fst (execute_sql rt drv sql confirm w)) ''insertId''
             = (case h_insertId h of None \<Rightarrow> None
                | Some n \<Rightarrow> if n = 0 then None else Some (JNum n))
         \<and> json_get (fst (execute_sql rt drv sql confirm w)) ''changedRows''
             = map_option JNum (h_changedRows h)
         \<and> json_get (fst (execute_sql rt drv sql confirm w)) ''warningCount''
             = (case h_warningCount h of None \<Rightarrow> None
                | Some n \<Rightarrow> if 0 < n then Some (JNum n) else None)"
  unfolding execute_sql_success [OF assms] json_get_JObj
  by (simp only: responseData_header_props)

theorem execute_sql_write_envelope_witness:
  "\<not> (isDangerous ascii_runtime (lit ''INSERT INTO t VALUES (1)'') \<and> \<not> False)
   \<and> fst (executeWithRetry insert_driver (lit ''INSERT INTO t VALUES (1)'') None None w0)
       = Returned (Some (HeaderResult (Header (Some 1) (Some 7) (Some 0) (Some 2)), None))
   \<and> json_get (fst (execute_sql ascii_runtime insert_driver (lit ''INSERT INTO t VALUES (1)'')
         False w0)) ''success'' = Some (JBool True)
   \<and> json_get (fst (execute_sql ascii_runtime insert_driver (lit ''INSERT INTO t VALUES (1)'')
         False w0)) ''sql'' = Some (JStr (lit ''INSERT INTO t VALUES (1)''))
   \<and> json_get (fst (execute_sql ascii_runtime insert_driver (lit ''INSERT INTO t VALUES (1)'')
         False w0)) ''affectedRows'' = Some (JNum 1)
   \<and> json_get (fst (execute_sql ascii_runtime insert_driver (lit ''INSERT INTO t VALUES (1)'')
         False w0)) ''insertId'' = Some (JNum 7)
   \<and> json_get (fst (execute_sql ascii_runtime insert_driver (lit ''INSERT INTO t VALUES (1)'')
         False w0)) ''changedRows'' = Some (JNum 0)
   \<and> json_get (fst (execute_sql ascii_runtime insert_driver (lit ''INSERT INTO t VALUES (1)'')
         False w0)) ''warningCount'' = Some (JNum 2)
   \<and> fst (executeWithRetry ok_driver (lit ''INSERT INTO t VALUES (1)'') None None w0)
       = Returned (Some (HeaderResult (Header (Some 1) (Some 0) None (Some 0)), None))
   \<and> json_get (fst (execute_sql ascii_runtime ok_driver (lit ''INSERT INTO t VALUES (1)'')
         False w0)) ''insertId'' = None
   \<and> json_get (fst (execute_sql ascii_runtime ok_driver (lit ''INSERT INTO t VALUES (1)'')
         False w0)) ''changedRows'' = None
   \<and> json_get (fst (execute_sql ascii_runtime ok_driver (lit ''INSERT INTO t VALUES (1)'')
         False w0)) ''warningCount'' = None"
proof -
  have a: "\<not> (isDangerous ascii_runtime (lit ''INSERT INTO t VALUES (1)'') \<and> \<not> False)"
    by code_simp
  have b: "fst (executeWithRetry insert_driver (lit ''INSERT INTO t VALUES (1)'') None None w0)
       = Returned (Some (HeaderResult (Header (Some 1) (Some 7) (Some 0) (Some 2)), None))"
    by code_simp
  have c: "fst (executeWithRetry ok_driver (lit ''INSERT INTO t VALUES (1)'') None None w0)
       = Returned (Some (HeaderResult (Header (Some 1) (Some 0) None (Some 0)), None))"
    by code_simp
  from execute_sql_write_envelope [OF a b] execute_sql_write_envelope [OF a c] a b c
  show ?thesis by simp
qed

text \<open>
  C7, as the code has it. \<open>cleanup\<close> never throws, on a first or on a second
  invocation: it calls \<open>pool.end()\<close>, and what that throws is caught and logged with
  its message (a close that succeeds is logged too). But nothing records that the pool
  has been closed: every invocation calls \<open>pool.end()\<close>, so two invocations in
  sequence call it twice.
\<close>

theorem cleanup_twice_returns_and_ends_twice:
  "fst (cleanup pend pool w) = Returned ()
   \<and> fst (cleanup pend pool (snd (cleanup pend pool w))) = Returned ()
   \<and> cleanup pend True w
       = (Returned (),
          w\<lparr>db := snd (pend (db w)),
            trace := trace w @
              [PoolEnd,
               ConsoleError (case fst (pend (db w)) of None \<Rightarrow> PoolClosed
                             | Some e \<Rightarrow> PoolCloseError (err_message e))]\<rparr>)
   \<and> new_events w (snd (cleanup pend True (snd (cleanup pend True w))))
       = [PoolEnd,
          ConsoleError (case fst (pend (db w)) of None \<Rightarrow> PoolClosed
                        | Some e \<Rightarrow> PoolCloseError (err_message e)),
          PoolEnd,
          ConsoleError (case fst (pend (snd (pend (db w)))) of None \<Rightarrow> PoolClosed
                        | Some e \<Rightarrow> PoolCloseError (err_message e))]
   \<and> end_calls (trace (snd (cleanup pend True w))) = end_calls (trace w) + 1
   \<and> end_calls (trace (snd (cleanup pend True (snd (cleanup pend True w)))))
       = end_calls (trace w) + 2"
  by (simp add: cleanup_returns cleanup_eq new_events_def)

theorem cleanup_twice_returns_and_ends_twice_witness:
  "fst (cleanup closing_end True open_pool) = Returned ()
   \<and> fst (cleanup closing_end True (snd (cleanup closing_end True open_pool))) = Returned ()
   \<and> new_events open_pool (snd (cleanup closing_end True (snd (cleanup closing_end True open_pool))))
       = [PoolEnd, ConsoleError PoolClosed,
          PoolEnd, ConsoleError (PoolCloseError (lit ''Pool is closed.''))]
   \<and> end_calls (trace (snd (cleanup closing_end True (snd (cleanup closing_end True open_pool)))))
       = end_calls (trace open_pool) + 2"
proof -
  have p: "fst (closing_end (db open_pool)) = None" "snd (closing_end (db open_pool)) = True"
    "fst (closing_end True) = Some closed_error"
    "err_message closed_error = lit ''Pool is closed.''"
    by (simp_all add: closing_end_def open_pool_def closed_error_def)
  from cleanup_twice_returns_and_ends_twice [of closing_end True open_pool, unfolded p option.case]
  show ?thesis by blast
qed

theorem cleanup_double_close_counterexample:
  "cleanup closing_end True open_pool
     = (Returned (), \<lparr>db = True, trace = [PoolEnd, ConsoleError PoolClosed]\<rparr>)
   \<and> cleanup closing_end True \<lparr>db = True, trace = [PoolEnd, ConsoleError PoolClosed]\<rparr>
     = (Returned (),
        \<lparr>db = True,
          trace = [PoolEnd, ConsoleError PoolClosed,
                   PoolEnd, ConsoleError (PoolCloseError (lit ''Pool is closed.''))]\<rparr>)
   \<and> end_calls [PoolEnd, ConsoleError PoolClosed,
                 PoolEnd, ConsoleError (PoolCloseError (lit ''Pool is closed.''))] = 2"
  by (intro conjI; code_simp)

text \<open>
  C8. Whatever the table name, every call that \<open>describe_table\<close> makes (one, or two
  when the first attempt fails) has the SQL text \<open>DESCRIBE ??\<close> and the parameter
  list that holds the table name alone; so the SQL texts submitted for two table names
  are the same.
\<close>

theorem describe_table_sql_is_constant:
  "(\<exists>n. (n = 1 \<or> n = 2)
      \<and> new_calls w (snd (describe_table drv table w))
          = replicate n (lit ''DESCRIBE ??'', [table]))
   \<and> set (map fst (new_calls w (snd (describe_table drv table w)))) = {lit ''DESCRIBE ??''}
   \<and> set (map fst (new_calls w (snd (describe_table drv table w))))
       = set (map fst (new_calls w' (snd (describe_table drv' table' w'))))"
  using describe_table_calls [of w drv table]
  by (simp only: describe_table_sql_texts)

theorem describe_table_sql_is_constant_witness:
  "(\<exists>n. (n = 1 \<or> n = 2)
      \<and> new_calls w0 (snd (describe_table failing_driver (lit ''t; DROP TABLE u'') w0))
          = replicate n (lit ''DESCRIBE ??'', [lit ''t; DROP TABLE u'']))
   \<and> set (map fst (new_calls w0 (snd (describe_table failing_driver (lit ''t; DROP TABLE u'') w0))))
       = {lit ''DESCRIBE ??''}
   \<and> set (map fst (new_calls w0 (snd (describe_table failing_driver (lit ''t; DROP TABLE u'') w0))))
       = set (map fst (new_calls w0 (snd (describe_table ok_driver (lit ''users'') w0))))"
  using describe_table_sql_is_constant
    [of w0 failing_driver "lit ''t; DROP TABLE u''" w0 ok_driver "lit ''users''"] .

text \<open>
  C9. When the trimmed, uppercased text begins with CREATE, ALTER or INSERT,
  \<open>execute_sql\<close> with \<open>confirm = false\<close> does what it does with \<open>confirm = true\<close>:
  it asks for no confirmation and submits the statement to the database, once or twice,
  with the original text and no parameters.
\<close>

theorem execute_sql_structural_bypasses_confirmation:
  assumes "kw \<in> set [lit ''CREATE'', lit ''ALTER'', lit ''INSERT'']"
    and "js_startsWith (toUpperCase rt (trim rt sql)) kw"
  shows "execute_sql rt drv sql False w = execute_sql rt drv sql True w
         \<and> json_get (fst (execute_sql rt drv sql False w)) ''requiresConfirmation'' = None
         \<and> (\<exists>n. (n = 1 \<or> n = 2)
               \<and> new_calls w (snd (execute_sql rt drv sql False w)) = replicate n (sql, []))"
proof -
  from assms have "isStructural rt sql" by (auto simp: isStructural_def trimmedSql_def)
  then have nd: "\<not> isDangerous rt sql" by (rule structural_not_dangerous)
  then have g: "\<not> (isDangerous rt sql \<and> \<not> False)" by simp
  from not_dangerous_confirm_irrelevant [OF nd, of drv w]
    execute_sql_no_confirmation_asked [OF g, of drv w]
    execute_sql_not_gated_calls [OF g, of w drv]
  show ?thesis by blast
qed

theorem execute_sql_structural_bypasses_confirmation_witness:
  "lit ''CREATE'' \<in> set [lit ''CREATE'', lit ''ALTER'', lit ''INSERT'']
   \<and> js_startsWith (toUpperCase ascii_runtime (trim ascii_runtime (lit '' create table t (a int)'')))
         (lit ''CREATE'')
   \<and> execute_sql ascii_runtime ok_driver (lit '' create table t (a int)'') False w0
       = execute_sql ascii_runtime ok_driver (lit '' create table t (a int)'') True w0
   \<and> json_get (fst (execute_sql ascii_runtime ok_driver (lit '' create table t (a int)'') False w0))
         ''requiresConfirmation'' = None
   \<and> (\<exists>n. (n = 1 \<or> n = 2)
         \<and> new_calls w0 (snd (execute_sql ascii_runtime ok_driver (lit '' create table t (a int)'')
               False w0))
             = replicate n (lit '' create table t (a int)'', []))"
proof -
  have a: "lit ''CREATE'' \<in> set [lit ''CREATE'', lit ''ALTER'', lit ''INSERT'']" by simp
  have b: "js_startsWith (toUpperCase ascii_runtime (trim ascii_runtime
      (lit '' create table t (a int)''))) (lit ''CREATE'')"
    by code_simp
  from execute_sql_structural_bypasses_confirmation [OF a b, of ok_driver w0] a b
  show ?thesis by blast
qed

text \<open>
  C10. Both gates test a prefix of the trimmed, uppercased text, not its first token.
  When that text is a keyword followed by anything at all, with or without a
  separator, \<open>query_database\<close> lets it through to the database for SELECT, SHOW,
  DESCRIBE and EXPLAIN, and \<open>execute_sql\<close> with \<open>confirm = false\<close> answers with the
  confirmation envelope, and makes no call, for DELETE, UPDATE, DROP and TRUNCATE. So
  \<open>SELECTED x\<close> passes the first gate and \<open>DELETED x\<close> is stopped at the second.
\<close>

theorem classification_is_by_prefix:
  assumes "toUpperCase rt (trim rt sql) = kw @ rest"
  shows "(kw \<in> set [lit ''SELECT'', lit ''SHOW'', lit ''DESCRIBE'', lit ''EXPLAIN''] \<longrightarrow>
            read_only_gate rt sql
            \<and> (\<exists>n. (n = 1 \<or> n = 2)
                  \<and> new_calls w (snd (query_database rt drv sql w)) = replicate n (sql, [])))
         \<and> (kw \<in> set [lit ''DELETE'', lit ''UPDATE'', lit ''DROP'', lit ''TRUNCATE''] \<longrightarrow>
              isDangerous rt sql
              \<and> execute_sql rt drv sql False w = (confirmation_envelope sql, w))"
proof (intro conjI impI)
  assume k: "kw \<in> set [lit ''SELECT'', lit ''SHOW'', lit ''DESCRIBE'', lit ''EXPLAIN'']"
  from js_startsWith_append [of kw rest] assms
  have "js_startsWith (trimmedSql rt sql) kw" by (simp add: trimmedSql_def)
  with k show g: "read_only_gate rt sql" by (auto simp: read_only_gate_def)
  from query_database_passed_calls [OF g]
  show "\<exists>n. (n = 1 \<or> n = 2)
          \<and> new_calls w (snd (query_database rt drv sql w)) = replicate n (sql, [])" .
next
  assume k: "kw \<in> set [lit ''DELETE'', lit ''UPDATE'', lit ''DROP'', lit ''TRUNCATE'']"
  from js_startsWith_append [of kw rest] assms
  have "js_startsWith (trimmedSql rt sql) kw" by (simp add: trimmedSql_def)
  with k show d: "isDangerous rt sql" by (auto simp: isDangerous_def)
  from execute_sql_gated [OF d]
  show "execute_sql rt drv sql False w = (confirmation_envelope sql, w)" .
qed

theorem classification_is_by_prefix_witness:
  "toUpperCase ascii_runtime (trim ascii_runtime (lit ''SELECTED x'')) = lit ''SELECT'' @ lit ''ED X''
   \<and> lit ''SELECT'' \<in> set [lit ''SELECT'', lit ''SHOW'', lit ''DESCRIBE'', lit ''EXPLAIN'']
   \<and> read_only_gate ascii_runtime (lit ''SELECTED x'')
   \<and> (\<exists>n. (n = 1 \<or> n = 2)
         \<and> new_calls w0 (snd (query_database ascii_runtime ok_driver (lit ''SELECTED x'') w0))
             = replicate n (lit ''SELECTED x'', []))
   \<and> toUpperCase ascii_runtime (trim ascii_runtime (lit ''DELETED x'')) = lit ''DELETE'' @ lit ''D X''
   \<and> lit ''DELETE'' \<in> set [lit ''DELETE'', lit ''UPDATE'', lit ''DROP'', lit ''TRUNCATE'']
   \<and> isDangerous ascii_runtime (lit ''DELETED x'')
   \<and> execute_sql ascii_runtime ok_driver (lit ''DELETED x'') False w0
       = (confirmation_envelope (lit ''DELETED x''), w0)"
proof -
  have a: "toUpperCase ascii_runtime (trim ascii_runtime (lit ''SELECTED x''))
      = lit ''SELECT'' @ lit ''ED X''" by code_simp
  have b: "lit ''SELECT'' \<in> set [lit ''SELECT'', lit ''SHOW'', lit ''DESCRIBE'', lit ''EXPLAIN'']"
    by simp
  have c: "toUpperCase ascii_runtime (trim ascii_runtime (lit ''DELETED x''))
      = lit ''DELETE'' @ lit ''D X''" by code_simp
  have d: "lit ''DELETE'' \<in> set [lit ''DELETE'', lit ''UPDATE'', lit ''DROP'', lit ''TRUNCATE'']"
    by simp
  from classification_is_by_prefix [OF a, of w0 ok_driver]
    classification_is_by_prefix [OF c, of w0 ok_driver] a b c d
  show ?thesis by blast
qed

end
